theory Spec2Isabelle
  imports Complex_Main "HOL-Library.AList"
begin

section \<open>Ethereum Frame Actions: packages/frames.js/src/ethereum/index.ts\<close>

text \<open>
  The module builds and checks a two-tier chain of typed-data signatures: a wallet
  signs a bundle naming a proxy key, the proxy key signs every frame action, and the
  receiver checks both signatures. Signing and verifying themselves are done by the
  viem library; it is a parameter of every function below (the record \<open>viem\<close>), and
  each call of it is written to a trace, so that what is asked of the library, of which
  client and in which order, can be stated.
\<close>

subsection \<open>JavaScript values\<close>

text \<open>
  A JavaScript \<open>number\<close> is a double: a finite value (a rational), \<open>NaN\<close> or an
  infinity. The code does no arithmetic on numbers; it passes them on and converts one
  to a \<open>bigint\<close>.
\<close>

datatype number = Finite rat | NaN | Infinity | NegInfinity

text \<open>
  Values of unknown shape (the argument of the type guard, the entries of a typed-data
  message, the properties of the object the verifier returns). An object is the list of
  its own properties, in insertion order; functions and symbols carry nothing the code
  reads.
\<close>

datatype jsval =
    JUndefined
  | JNull
  | JBoolean bool
  | JNumber number
  | JBigInt int
  | JString string
  | JSymbol
  | JFunction
  | JObject "(string \<times> jsval) list"

text \<open>The \<open>typeof\<close> operator.\<close>

primrec typeof :: "jsval \<Rightarrow> string" where
  "typeof JUndefined = ''undefined''"
| "typeof JNull = ''object''"
| "typeof (JBoolean b) = ''boolean''"
| "typeof (JNumber n) = ''number''"
| "typeof (JBigInt i) = ''bigint''"
| "typeof (JString s) = ''string''"
| "typeof JSymbol = ''symbol''"
| "typeof JFunction = ''function''"
| "typeof (JObject ps) = ''object''"

text \<open>
  \<open>key in obj\<close> and \<open>obj.key\<close> on a list of properties: a missing property reads as
  \<open>undefined\<close>.
\<close>

definition has_property :: "string \<Rightarrow> (string \<times> jsval) list \<Rightarrow> bool" where
  "has_property k ps = (k \<in> fst ` set ps)"

definition get_property :: "(string \<times> jsval) list \<Rightarrow> string \<Rightarrow> jsval" where
  "get_property ps k = (case map_of ps k of None \<Rightarrow> JUndefined | Some v \<Rightarrow> v)"

text \<open>
  An optional property \<open>k?: T\<close> of an object: the object has no own property \<open>k\<close>, or
  it has one with the value \<open>undefined\<close>, or it has one with a value of \<open>T\<close>. Reading
  the property gives \<open>undefined\<close> in the first two cases; only the spread of the object
  tells them apart.
\<close>

datatype 'a optional = Absent | Undefined | Defined 'a

text \<open>The nullish coalescing operator \<open>??\<close> on an optional property.\<close>

definition coalesce :: "'a optional \<Rightarrow> 'a \<Rightarrow> 'a" where
  "coalesce x d = (case x of Absent \<Rightarrow> d | Undefined \<Rightarrow> d | Defined v \<Rightarrow> v)"

text \<open>
  Errors: the \<open>Error\<close> the module throws itself (with its message), the \<open>RangeError\<close>
  of \<open>BigInt()\<close>, and whatever a call of the library threw, kept as it is.
\<close>

datatype 'e error = Error string | RangeError | Thrown 'e

text \<open>\<open>BigInt(x)\<close> returns the integer \<open>x\<close> and throws a \<open>RangeError\<close> on every other number.\<close>

definition BigInt :: "number \<Rightarrow> 'e error + int" where
  "BigInt x =
     (case x of
        Finite q \<Rightarrow> if of_int \<lfloor>q\<rfloor> = q then Inr \<lfloor>q\<rfloor> else Inl RangeError
      | _ \<Rightarrow> Inl RangeError)"

subsection \<open>The types of the module\<close>

record PublicKeyBundle =
  timestamp :: number
  proxy_key_bytes :: string

record SignedPublicKeyBundle =
  public_key_bundle :: PublicKeyBundle
  wallet_address :: string
  signature :: string

text \<open>
  A \<open>FrameActionBody\<close> is an object with the properties that the type declares and,
  as TypeScript's structural typing admits, possibly further own properties under other
  names; \<open>undeclared\<close> lists those (an entry under a declared name, or a second entry
  under the same name, counts for nothing). In the functions below, a variable of the
  source that shares its name with a field of these records carries a prime.
\<close>

record FrameActionBody =
  url :: string
  unixTimestamp :: number
  buttonIndex :: number
  inputText :: "string optional"
  state :: "string optional"
  transactionId :: "string optional"
  address :: "string optional"
  undeclared :: "(string \<times> jsval) list"

text \<open>\<open>EthereumFrameRequest["untrustedData"]\<close>: the body and the signature data.\<close>

record UntrustedData = FrameActionBody +
  signature :: string
  signedPublicKeyBundle :: SignedPublicKeyBundle

record TrustedData =
  messageBytes :: string

record EthereumFrameRequest =
  clientProtocol :: string
  untrustedData :: UntrustedData
  trustedData :: TrustedData

subsection \<open>viem: typed data, clients, and the calls made of them\<close>

text \<open>
  The argument of \<open>signTypedData\<close>; a \<open>TypedDataParameter\<close> \<open>{name, type}\<close> is a
  pair. \<open>verifyTypedData\<close> takes the same with the claimed signer and the signature.
\<close>

record TypedDataDefinition =
  primaryType :: string
  domain :: "(string \<times> jsval) list"
  types :: "(string \<times> (string \<times> string) list) list"
  message :: "(string \<times> jsval) list"

record VerifyTypedDataParameters = TypedDataDefinition +
  address :: string
  signature :: string

record Account =
  address :: string

record WalletClient =
  account :: "Account option"

text \<open>
  What the module imports from viem and from the runtime. \<open>'c\<close> is the type of public
  clients and \<open>'e\<close> of the errors the library throws.
  \<^item> \<open>createPublicClient\<close>: the client that \<open>createPublicClient({transport: http(), chain: mainnet})\<close> builds;
  \<^item> \<open>verifyTypedData c p\<close>: \<open>c.verifyTypedData(p)\<close>, a boolean or an error;
  \<^item> \<open>signTypedData w d\<close>: \<open>w.signTypedData(d)\<close>, a signature or an error;
  \<^item> \<open>generatePrivateKey\<close>: the key the call of \<open>generatePrivateKey()\<close> draws;
  \<^item> \<open>privateKeyToAccount\<close>;
  \<^item> \<open>Date_now\<close>: what \<open>Date.now()\<close> returns, the milliseconds elapsed since the epoch.
\<close>

record ('c, 'e) viem =
  createPublicClient :: 'c
  verifyTypedData :: "'c \<Rightarrow> VerifyTypedDataParameters \<Rightarrow> 'e + bool"
  signTypedData :: "WalletClient \<Rightarrow> TypedDataDefinition \<Rightarrow> 'e + string"
  generatePrivateKey :: string
  privateKeyToAccount :: "string \<Rightarrow> Account"
  Date_now :: int

text \<open>The trace of a run: the clients it built and the calls it made, in order.\<close>

datatype 'c event =
    CreatePublicClient
  | VerifyTypedData 'c VerifyTypedDataParameters
  | SignTypedData WalletClient TypedDataDefinition

definition zeroAddress :: string where
  "zeroAddress = ''0x0000000000000000000000000000000000000000''"

definition zeroHash :: string where
  "zeroHash = ''0x0000000000000000000000000000000000000000000000000000000000000000''"

subsection \<open>The schemas and the domain\<close>

definition EIP712TypesV1 :: "(string \<times> (string \<times> string) list) list" where
  "EIP712TypesV1 =
     [(''FrameActionBody'',
        [(''frame_url'', ''string''),
         (''button_index'', ''uint32''),
         (''unix_timestamp'', ''uint64''),
         (''input_text'', ''string''),
         (''state'', ''string''),
         (''transaction_id'', ''bytes32''),
         (''address'', ''address'')]),
      (''PublicKeyBundle'',
        [(''timestamp'', ''uint64''),
         (''proxy_key_bytes'', ''address'')])]"

definition domain :: "(string \<times> jsval) list" where
  "domain = [(''name'', JString ''Ethereum Frame Action''), (''version'', JString ''1'')]"

subsection \<open>Verifying a signed public key bundle\<close>

text \<open>The \<open>typedData\<close> of \<open>verifyPublicKeyBundle\<close> (lines 75 to 86).\<close>

definition verifyPublicKeyBundle_typedData :: "SignedPublicKeyBundle \<Rightarrow> VerifyTypedDataParameters" where
  "verifyPublicKeyBundle_typedData signedPublicKeyBundle' =
     \<lparr> primaryType = ''PublicKeyBundle'',
       TypedDataDefinition.domain = domain,
       types = EIP712TypesV1,
       message =
         [(''timestamp'', JNumber (timestamp (public_key_bundle signedPublicKeyBundle'))),
          (''wallet_address'', JString (wallet_address signedPublicKeyBundle')),
          (''proxy_key_bytes'', JString (proxy_key_bytes (public_key_bundle signedPublicKeyBundle')))],
       VerifyTypedDataParameters.address = wallet_address signedPublicKeyBundle',
       VerifyTypedDataParameters.signature = SignedPublicKeyBundle.signature signedPublicKeyBundle' \<rparr>"

text \<open>
  \<open>verifyPublicKeyBundle\<close> builds a public client of its own and returns what that
  client's \<open>verifyTypedData\<close> returns; an error of the call is thrown on.
\<close>

definition verifyPublicKeyBundle ::
  "('c, 'e) viem \<Rightarrow> SignedPublicKeyBundle \<Rightarrow> 'c event list \<times> ('e error + bool)" where
  "verifyPublicKeyBundle env signedPublicKeyBundle' =
     (let typedData = verifyPublicKeyBundle_typedData signedPublicKeyBundle';
          publicClient = createPublicClient env
      in ([CreatePublicClient, VerifyTypedData publicClient typedData],
          case verifyTypedData env publicClient typedData of
            Inl e \<Rightarrow> Inl (Thrown e)
          | Inr b \<Rightarrow> Inr b))"

subsection \<open>The type guard\<close>

text \<open>
  \<open>isEthereumFrameActionPayload\<close>, check by check. The \<open>in\<close> tests and the
  destructuring are reached only for an object.
\<close>

definition isEthereumFrameActionPayload :: "jsval \<Rightarrow> bool" where
  "isEthereumFrameActionPayload body =
     (if typeof body \<noteq> ''object'' \<or> body = JNull then False
      else case body of
        JObject props \<Rightarrow>
          if \<not> has_property ''clientProtocol'' props \<or>
             \<not> has_property ''untrustedData'' props \<or>
             \<not> has_property ''trustedData'' props
          then False
          else
            let clientProtocol' = get_property props ''clientProtocol'';
                untrustedData' = get_property props ''untrustedData'';
                trustedData' = get_property props ''trustedData''
            in if clientProtocol' \<noteq> JString ''eth@v1'' then False
               else typeof clientProtocol' = ''string'' \<and>
                    typeof untrustedData' = ''object'' \<and> untrustedData' \<noteq> JNull \<and>
                    typeof trustedData' = ''object'' \<and> trustedData' \<noteq> JNull
      | _ \<Rightarrow> False)"

subsection \<open>Verifying a frame action\<close>

text \<open>The \<open>typedData\<close> of \<open>getEthereumFrameMessage\<close> (lines 136 to 153).\<close>

definition getEthereumFrameMessage_typedData :: "UntrustedData \<Rightarrow> VerifyTypedDataParameters" where
  "getEthereumFrameMessage_typedData untrustedData' =
     \<lparr> primaryType = ''FrameActionBody'',
       TypedDataDefinition.domain = domain,
       types = EIP712TypesV1,
       message =
         [(''frame_url'', JString (url untrustedData')),
          (''button_index'', JNumber (buttonIndex untrustedData')),
          (''unix_timestamp'', JNumber (unixTimestamp untrustedData')),
          (''input_text'', JString (coalesce (inputText untrustedData') '''')),
          (''state'', JString (coalesce (state untrustedData') '''')),
          (''transaction_id'', JString (coalesce (transactionId untrustedData') zeroHash)),
          (''address'', JString (coalesce (FrameActionBody.address untrustedData') zeroAddress))],
       VerifyTypedDataParameters.address =
         proxy_key_bytes (public_key_bundle (signedPublicKeyBundle untrustedData')),
       VerifyTypedDataParameters.signature = UntrustedData.signature untrustedData' \<rparr>"

text \<open>
  The objects the module spreads or returns, as lists of properties. A spread copies
  every own property: an optional property that is there with the value \<open>undefined\<close>,
  and the properties the type does not declare, too.
\<close>

definition optional :: "string \<Rightarrow> string optional \<Rightarrow> (string \<times> jsval) list" where
  "optional k v =
     (case v of Absent \<Rightarrow> [] | Undefined \<Rightarrow> [(k, JUndefined)] | Defined s \<Rightarrow> [(k, JString s)])"

definition UntrustedData_keys :: "string list" where
  "UntrustedData_keys =
     [''url'', ''unixTimestamp'', ''buttonIndex'', ''inputText'', ''state'',
      ''transactionId'', ''address'', ''signature'', ''signedPublicKeyBundle'']"

definition SignedPublicKeyBundle_object :: "SignedPublicKeyBundle \<Rightarrow> jsval" where
  "SignedPublicKeyBundle_object b =
     JObject
       [(''public_key_bundle'',
          JObject [(''timestamp'', JNumber (timestamp (public_key_bundle b))),
                   (''proxy_key_bytes'', JString (proxy_key_bytes (public_key_bundle b)))]),
        (''wallet_address'', JString (wallet_address b)),
        (''signature'', JString (SignedPublicKeyBundle.signature b))]"

definition UntrustedData_properties :: "UntrustedData \<Rightarrow> (string \<times> jsval) list" where
  "UntrustedData_properties u =
     [(''url'', JString (url u)),
      (''unixTimestamp'', JNumber (unixTimestamp u)),
      (''buttonIndex'', JNumber (buttonIndex u))]
     @ optional ''inputText'' (inputText u)
     @ optional ''state'' (state u)
     @ optional ''transactionId'' (transactionId u)
     @ optional ''address'' (FrameActionBody.address u)
     @ [(''signature'', JString (UntrustedData.signature u)),
        (''signedPublicKeyBundle'', SignedPublicKeyBundle_object (signedPublicKeyBundle u))]
     @ filter (\<lambda>(k, v). k \<notin> set UntrustedData_keys) (undeclared u)"

text \<open>What reading an optional property gives.\<close>

definition optional_value :: "string optional \<Rightarrow> jsval" where
  "optional_value v =
     (case v of Absent \<Rightarrow> JUndefined | Undefined \<Rightarrow> JUndefined | Defined s \<Rightarrow> JString s)"

text \<open>
  \<open>getEthereumFrameMessage\<close>: the action signature is checked on the client given, or
  on a default one built here; then the bundle is checked by \<open>verifyPublicKeyBundle\<close>;
  an error of either call ends the run. The object returned is the spread of
  \<open>untrustedData\<close> with four properties set after it.
\<close>

definition getEthereumFrameMessage ::
  "('c, 'e) viem \<Rightarrow> EthereumFrameRequest \<Rightarrow> 'c option \<Rightarrow>
     'c event list \<times> ('e error + (string \<times> jsval) list)" where
  "getEthereumFrameMessage env body publicClient =
     (let untrustedData' = untrustedData body;
          typedData = getEthereumFrameMessage_typedData untrustedData';
          (created, publicClient') =
            (case publicClient of
               Some c \<Rightarrow> ([], c)
             | None \<Rightarrow> ([CreatePublicClient], createPublicClient env));
          called = created @ [VerifyTypedData publicClient' typedData]
      in case verifyTypedData env publicClient' typedData of
           Inl e \<Rightarrow> (called, Inl (Thrown e))
         | Inr isFrameDataValid \<Rightarrow>
             (case verifyPublicKeyBundle env (signedPublicKeyBundle untrustedData') of
                (calls, Inl e) \<Rightarrow> (called @ calls, Inl e)
              | (calls, Inr isSignerValid) \<Rightarrow>
                  (let isValid = isFrameDataValid \<and> isSignerValid
                   in (called @ calls,
                       Inr (AList.update ''requesterWalletAddress''
                              (JString (wallet_address (signedPublicKeyBundle untrustedData')))
                           (AList.update ''isValid'' (JBoolean isValid)
                           (AList.update ''address''
                              (if FrameActionBody.address untrustedData' = Defined zeroAddress
                               then JUndefined
                               else optional_value (FrameActionBody.address untrustedData'))
                           (AList.update ''transactionId''
                              (if transactionId untrustedData' = Defined zeroHash
                               then JUndefined
                               else optional_value (transactionId untrustedData'))
                           (UntrustedData_properties untrustedData')))))))))"

subsection \<open>Signing\<close>

text \<open>The argument of \<open>signTypedData\<close> in \<open>signPublicKeyBundle\<close> (lines 191 to 199).\<close>

definition signPublicKeyBundle_typedData :: "PublicKeyBundle \<Rightarrow> TypedDataDefinition" where
  "signPublicKeyBundle_typedData publicKeyBundle =
     \<lparr> primaryType = ''PublicKeyBundle'',
       TypedDataDefinition.domain = domain,
       types = EIP712TypesV1,
       message =
         [(''timestamp'', JNumber (timestamp publicKeyBundle)),
          (''proxy_key_bytes'', JString (proxy_key_bytes publicKeyBundle))] \<rparr>"

definition signPublicKeyBundle ::
  "('c, 'e) viem \<Rightarrow> PublicKeyBundle \<Rightarrow> WalletClient \<Rightarrow>
     'c event list \<times> ('e error + SignedPublicKeyBundle)" where
  "signPublicKeyBundle env publicKeyBundle walletClient =
     (case account walletClient of
        None \<Rightarrow> ([], Inl (Error ''Wallet client does not have an account''))
      | Some acct \<Rightarrow>
          (let typedData = signPublicKeyBundle_typedData publicKeyBundle
           in ([SignTypedData walletClient typedData],
               case signTypedData env walletClient typedData of
                 Inl e \<Rightarrow> Inl (Thrown e)
               | Inr signature' \<Rightarrow>
                   Inr \<lparr> public_key_bundle = publicKeyBundle,
                         wallet_address = Account.address acct,
                         SignedPublicKeyBundle.signature = signature' \<rparr>)))"

text \<open>
  \<open>createSignedPublicKeyBundle\<close> returns the signed bundle and the private key of the
  proxy (a pair here).
\<close>

definition createSignedPublicKeyBundle ::
  "('c, 'e) viem \<Rightarrow> WalletClient \<Rightarrow>
     'c event list \<times> ('e error + SignedPublicKeyBundle \<times> string)" where
  "createSignedPublicKeyBundle env walletClient =
     (case account walletClient of
        None \<Rightarrow> ([], Inl (Error ''Wallet client does not have an account''))
      | Some _ \<Rightarrow>
          (let privateKey = generatePrivateKey env;
               signerAccount = privateKeyToAccount env privateKey;
               publicKeyBundle =
                 \<lparr> timestamp = Finite (of_int (Date_now env)),
                   proxy_key_bytes = Account.address signerAccount \<rparr>
           in case signPublicKeyBundle env publicKeyBundle walletClient of
                (calls, Inl e) \<Rightarrow> (calls, Inl e)
              | (calls, Inr signedPublicKeyBundle') \<Rightarrow>
                  (calls, Inr (signedPublicKeyBundle', privateKey))))"

text \<open>
  The argument of \<open>signTypedData\<close> in \<open>signFrameActionBody\<close> (lines 247 to 260);
  \<open>BigInt(body.unixTimestamp)\<close> may throw while it is built.
\<close>

definition signFrameActionBody_typedData :: "FrameActionBody \<Rightarrow> 'e error + TypedDataDefinition" where
  "signFrameActionBody_typedData body =
     (case BigInt (unixTimestamp body) of
        Inl e \<Rightarrow> Inl e
      | Inr unix_timestamp \<Rightarrow>
          Inr \<lparr> primaryType = ''FrameActionBody'',
                TypedDataDefinition.domain = domain,
                types = EIP712TypesV1,
                message =
                  [(''frame_url'', JString (url body)),
                   (''button_index'', JNumber (buttonIndex body)),
                   (''unix_timestamp'', JBigInt unix_timestamp),
                   (''input_text'', JString (coalesce (inputText body) '''')),
                   (''state'', JString (coalesce (state body) '''')),
                   (''transaction_id'', JString (coalesce (transactionId body) zeroHash)),
                   (''address'', JString (coalesce (FrameActionBody.address body) zeroAddress))] \<rparr>)"

definition signFrameActionBody ::
  "('c, 'e) viem \<Rightarrow> FrameActionBody \<Rightarrow> WalletClient \<Rightarrow> 'c event list \<times> ('e error + string)" where
  "signFrameActionBody env body proxyWalletClient =
     (case account proxyWalletClient of
        None \<Rightarrow> ([], Inl (Error ''Wallet client does not have an account''))
      | Some _ \<Rightarrow>
          (case signFrameActionBody_typedData body of
             Inl e \<Rightarrow> ([], Inl e)
           | Inr typedData \<Rightarrow>
               ([SignTypedData proxyWalletClient typedData],
                case signTypedData env proxyWalletClient typedData of
                  Inl e \<Rightarrow> Inl (Thrown e)
                | Inr signature' \<Rightarrow> Inr signature')))"

text \<open>
  \<open>{...body, signature, signedPublicKeyBundle}\<close>, the \<open>untrustedData\<close> of a request:
  every own property of the body, then the two set after the spread.
\<close>

definition with_signature :: "FrameActionBody \<Rightarrow> string \<Rightarrow> SignedPublicKeyBundle \<Rightarrow> UntrustedData" where
  "with_signature body signature' signedPublicKeyBundle' =
     \<lparr> url = url body,
       unixTimestamp = unixTimestamp body,
       buttonIndex = buttonIndex body,
       inputText = inputText body,
       state = state body,
       transactionId = transactionId body,
       FrameActionBody.address = FrameActionBody.address body,
       undeclared = undeclared body,
       UntrustedData.signature = signature',
       signedPublicKeyBundle = signedPublicKeyBundle' \<rparr>"

definition createEthereumFrameRequest ::
  "('c, 'e) viem \<Rightarrow> FrameActionBody \<Rightarrow> WalletClient \<Rightarrow> SignedPublicKeyBundle \<Rightarrow>
     'c event list \<times> ('e error + EthereumFrameRequest)" where
  "createEthereumFrameRequest env body proxyWalletClient signedPublicKeyBundle' =
     (case signFrameActionBody env body proxyWalletClient of
        (calls, Inl e) \<Rightarrow> (calls, Inl e)
      | (calls, Inr signature') \<Rightarrow>
          (calls,
           Inr \<lparr> clientProtocol = ''eth@v1'',
                 untrustedData = with_signature body signature' signedPublicKeyBundle',
                 trustedData = \<lparr> messageBytes = ''0x'' \<rparr> \<rparr>))"

subsection \<open>What the claims speak of\<close>

text \<open>A value that \<open>typeof\<close> calls an object and that is not \<open>null\<close>.\<close>

definition non_null_object :: "jsval \<Rightarrow> bool" where
  "non_null_object v = (typeof v = ''object'' \<and> v \<noteq> JNull)"

text \<open>The error of a signing operation called with a client that has no account.\<close>

definition NoAccountError :: "'e error" where
  "NoAccountError = Error ''Wallet client does not have an account''"

text \<open>The client a run of \<open>getEthereumFrameMessage\<close> checks the action signature on.\<close>

definition client_used :: "('c, 'e) viem \<Rightarrow> 'c option \<Rightarrow> 'c" where
  "client_used env publicClient =
     (case publicClient of None \<Rightarrow> createPublicClient env | Some c \<Rightarrow> c)"

text \<open>The unix time in seconds at the moment \<open>Date.now()\<close> returns \<open>ms\<close>.\<close>

definition unix_seconds :: "int \<Rightarrow> int" where
  "unix_seconds ms = ms div 1000"


text \<open>
  The canonical \<open>FrameActionBody\<close> message as the specification words it: the fields
  in the order of the schema, an absent \<open>inputText\<close> or \<open>state\<close> the empty string, an
  absent \<open>transactionId\<close> the all-zero 32-byte value, an absent \<open>address\<close> the
  all-zero 20-byte value (a property that is \<open>undefined\<close> is absent here). The
  representation of \<open>unix_timestamp\<close> is a parameter.
\<close>

definition canonical_message :: "'a FrameActionBody_scheme \<Rightarrow> jsval \<Rightarrow> (string \<times> jsval) list" where
  "canonical_message body unix_timestamp =
     [(''frame_url'', JString (url body)),
      (''button_index'', JNumber (buttonIndex body)),
      (''unix_timestamp'', unix_timestamp),
      (''input_text'',
         JString (case inputText body of
                    Absent \<Rightarrow> '''' | Undefined \<Rightarrow> '''' | Defined s \<Rightarrow> s)),
      (''state'',
         JString (case state body of
                    Absent \<Rightarrow> '''' | Undefined \<Rightarrow> '''' | Defined s \<Rightarrow> s)),
      (''transaction_id'',
         JString (case transactionId body of
                    Absent \<Rightarrow> ''0x'' @ replicate 64 CHR ''0''
                  | Undefined \<Rightarrow> ''0x'' @ replicate 64 CHR ''0''
                  | Defined h \<Rightarrow> h)),
      (''address'',
         JString (case FrameActionBody.address body of
                    Absent \<Rightarrow> ''0x'' @ replicate 40 CHR ''0''
                  | Undefined \<Rightarrow> ''0x'' @ replicate 40 CHR ''0''
                  | Defined a \<Rightarrow> a))]"

text \<open>
  What a typed-data signature covers (EIP-712): the primary type, the domain, the
  schemas, and the values of the fields that the schema of the primary type declares,
  in its order, an integer counting by its value whether it comes as a \<open>number\<close> or as
  a \<open>bigint\<close>. A property of the message that the schema does not declare is not signed.
\<close>

definition integer_value :: "jsval \<Rightarrow> jsval" where
  "integer_value v =
     (case v of
        JNumber (Finite q) \<Rightarrow> if of_int \<lfloor>q\<rfloor> = q then JBigInt \<lfloor>q\<rfloor> else v
      | _ \<Rightarrow> v)"

definition signed_fields ::
  "'a TypedDataDefinition_scheme \<Rightarrow>
     string \<times> (string \<times> jsval) list \<times> (string \<times> (string \<times> string) list) list \<times>
     (string \<times> jsval) list" where
  "signed_fields d =
     (primaryType d, TypedDataDefinition.domain d, types d,
      map (\<lambda>(name, ty). (name, integer_value (get_property (message d) name)))
        (case map_of (types d) (primaryType d) of None \<Rightarrow> [] | Some declared \<Rightarrow> declared))"

text \<open>
  The assumption on the library for the round trip: a signature that an account's
  \<open>signTypedData\<close> returned for some typed data is accepted by \<open>verifyTypedData\<close>
  of the default client, for typed data with the same signed fields and that account's
  address.
\<close>

definition verifies_what_it_signed :: "('c, 'e) viem \<Rightarrow> bool" where
  "verifies_what_it_signed env =
     (\<forall>w a d s p.
        account w = Some a \<and> signTypedData env w d = Inr s \<and>
        signed_fields p = signed_fields d \<and>
        VerifyTypedDataParameters.address p = Account.address a \<and>
        VerifyTypedDataParameters.signature p = s
        \<longrightarrow> verifyTypedData env (createPublicClient env) p = Inr True)"

subsection \<open>A library to run the module on\<close>

text \<open>
  A stand-in for viem on which the functions can be evaluated. Its signature of typed
  data names the signer's address, the primary type and the strings among the signed
  fields; \<open>verifyTypedData\<close> accepts exactly that signature, and fails on the client
  \<open>offline\<close>.
\<close>

definition toy_signature :: "string \<Rightarrow> 'a TypedDataDefinition_scheme \<Rightarrow> string" where
  "toy_signature addr d =
     (case signed_fields d of
        (ptype, _, _, signed) \<Rightarrow>
          addr @ '':'' @ ptype @
          concat (map (\<lambda>(name, v). case v of JString s \<Rightarrow> '':'' @ s | _ \<Rightarrow> []) signed))"

definition toy :: "(string, string) viem" where
  "toy =
     \<lparr> createPublicClient = ''default'',
       verifyTypedData = (\<lambda>c p.
         if c = ''offline'' then Inl ''network error''
         else Inr (VerifyTypedDataParameters.signature p =
                   toy_signature (VerifyTypedDataParameters.address p) p)),
       signTypedData = (\<lambda>w d.
         case account w of
           None \<Rightarrow> Inl ''no account''
         | Some a \<Rightarrow> Inr (toy_signature (Account.address a) d)),
       generatePrivateKey = ''0x01'',
       privateKeyToAccount = (\<lambda>k. \<lparr> Account.address = ''0xbb'' \<rparr>),
       Date_now = 1700000000000 \<rparr>"

definition wallet :: WalletClient where
  "wallet = \<lparr> account = Some \<lparr> Account.address = ''0xaa'' \<rparr> \<rparr>"

definition proxy :: WalletClient where
  "proxy = \<lparr> account = Some \<lparr> Account.address = ''0xbb'' \<rparr> \<rparr>"

definition click :: FrameActionBody where
  "click =
     \<lparr> url = ''https://x'', unixTimestamp = Finite 1000, buttonIndex = Finite 2,
       inputText = Absent, state = Absent, transactionId = Absent,
       FrameActionBody.address = Absent, undeclared = [] \<rparr>"

definition attestation :: SignedPublicKeyBundle where
  "attestation =
     \<lparr> public_key_bundle = \<lparr> timestamp = Finite 1700000000000, proxy_key_bytes = ''0xbb'' \<rparr>,
       wallet_address = ''0xaa'',
       SignedPublicKeyBundle.signature = ''0xaa:PublicKeyBundle:0xbb'' \<rparr>"

definition request :: EthereumFrameRequest where
  "request =
     \<lparr> clientProtocol = ''eth@v1'',
       untrustedData =
         with_signature click
           (''0xbb:FrameActionBody:https://x:::'' @ zeroHash @ '':'' @ zeroAddress) attestation,
       trustedData = \<lparr> messageBytes = ''0x'' \<rparr> \<rparr>"


text \<open>The same library when the client that \<open>createPublicClient\<close> builds is off line.\<close>

definition toy_offline :: "(string, string) viem" where
  "toy_offline = toy \<lparr> createPublicClient := ''offline'' \<rparr>"

section \<open>Lemmas\<close>

subsection \<open>Objects, numbers and sentinels\<close>

lemma get_property_update:
  "get_property (AList.update k v ps) k' = (if k' = k then v else get_property ps k')"
  by (simp add: get_property_def update_conv')


lemma has_property_simps:
  "has_property k [] \<longleftrightarrow> False"
  "has_property k ((k', v) # ps) \<longleftrightarrow> k = k' \<or> has_property k ps"
  "has_property k (ps @ qs) \<longleftrightarrow> has_property k ps \<or> has_property k qs"
  "has_property k (optional k' x) \<longleftrightarrow> k = k' \<and> x \<noteq> Absent"
  by (auto simp: has_property_def optional_def split: optional.splits)







lemma non_null_object_iff: "non_null_object v \<longleftrightarrow> (\<exists>ps. v = JObject ps)"
  by (cases v) (simp_all add: non_null_object_def)

lemma BigInt_of_int: "BigInt (Finite (of_int n)) = Inr n"
  by (simp add: BigInt_def)

lemma floor_three_halves: "\<lfloor>3 / 2 :: rat\<rfloor> = 1"
  by code_simp

lemma BigInt_fraction: "BigInt (Finite (3 / 2)) = Inl RangeError"
  by (simp add: BigInt_def floor_three_halves)

lemma zero_sentinels:
  "zeroHash = ''0x'' @ replicate 64 CHR ''0''"
  "zeroAddress = ''0x'' @ replicate 40 CHR ''0''"
  by (simp_all add: zeroHash_def zeroAddress_def eval_nat_numeral)

lemma integer_value_simps:
  "integer_value (JString s) = JString s"
  "integer_value (JBigInt i) = JBigInt i"
  "integer_value (JNumber (Finite (of_int n))) = JBigInt n"
  "integer_value (JNumber (Finite (numeral m))) = JBigInt (numeral m)"
  by (simp_all add: integer_value_def)

subsection \<open>The two messages of a frame action\<close>

lemma with_signature_simps:
  "url (with_signature body sig b) = url body"
  "unixTimestamp (with_signature body sig b) = unixTimestamp body"
  "buttonIndex (with_signature body sig b) = buttonIndex body"
  "inputText (with_signature body sig b) = inputText body"
  "state (with_signature body sig b) = state body"
  "transactionId (with_signature body sig b) = transactionId body"
  "FrameActionBody.address (with_signature body sig b) = FrameActionBody.address body"
  "undeclared (with_signature body sig b) = undeclared body"
  "UntrustedData.signature (with_signature body sig b) = sig"
  "signedPublicKeyBundle (with_signature body sig b) = b"
  by (simp_all add: with_signature_def)

lemma signFrameActionBody_typedData_integer:
  assumes "unixTimestamp body = Finite (of_int n)"
  shows "signFrameActionBody_typedData body =
           Inr \<lparr> primaryType = ''FrameActionBody'', TypedDataDefinition.domain = domain,
                 types = EIP712TypesV1,
                 message = canonical_message body (JBigInt n) \<rparr>"
  using assms
  by (simp add: signFrameActionBody_typedData_def BigInt_of_int canonical_message_def
        coalesce_def zero_sentinels split: optional.splits)

lemma getEthereumFrameMessage_typedData_canonical:
  "TypedDataDefinition.truncate (getEthereumFrameMessage_typedData u) =
     \<lparr> primaryType = ''FrameActionBody'', TypedDataDefinition.domain = domain,
       types = EIP712TypesV1,
       message = canonical_message u (JNumber (unixTimestamp u)) \<rparr>"
  by (simp add: canonical_message_def getEthereumFrameMessage_typedData_def coalesce_def
        zero_sentinels TypedDataDefinition.truncate_def split: optional.splits)

lemma canonical_message_with_signature:
  "canonical_message (with_signature body sig b) v = canonical_message body v"
  by (simp add: canonical_message_def with_signature_def)

subsection \<open>What is signed\<close>

lemma signed_fields_truncate:
  "signed_fields (TypedDataDefinition.truncate d) = signed_fields d"
  by (simp add: signed_fields_def TypedDataDefinition.truncate_def)

lemma signed_fields_canonical:
  "signed_fields \<lparr> primaryType = ''FrameActionBody'', TypedDataDefinition.domain = domain,
       types = EIP712TypesV1, message = canonical_message b v \<rparr> =
     (''FrameActionBody'', domain, EIP712TypesV1,
      map (\<lambda>(k, v). (k, integer_value v)) (canonical_message b v))"
  by (simp add: signed_fields_def canonical_message_def EIP712TypesV1_def coalesce_def
        get_property_def)

lemma signed_fields_FrameActionBody:
  "signed_fields (getEthereumFrameMessage_typedData u) =
     (''FrameActionBody'', domain, EIP712TypesV1,
      map (\<lambda>(k, v). (k, integer_value v)) (message (getEthereumFrameMessage_typedData u)))"
  by (simp add: signed_fields_def getEthereumFrameMessage_typedData_def EIP712TypesV1_def
        coalesce_def get_property_def)

text \<open>
  The \<open>wallet_address\<close> entry that \<open>verifyPublicKeyBundle\<close> puts into its message is not
  a field of the schema, so it is not among the signed fields.
\<close>

lemma signed_fields_PublicKeyBundle:
  "signed_fields (verifyPublicKeyBundle_typedData b) =
     (''PublicKeyBundle'', domain, EIP712TypesV1,
      [(''timestamp'', integer_value (JNumber (timestamp (public_key_bundle b)))),
       (''proxy_key_bytes'', JString (proxy_key_bytes (public_key_bundle b)))])"
  "signed_fields (signPublicKeyBundle_typedData pkb) =
     (''PublicKeyBundle'', domain, EIP712TypesV1,
      [(''timestamp'', integer_value (JNumber (timestamp pkb))),
       (''proxy_key_bytes'', JString (proxy_key_bytes pkb))])"
  by (simp_all add: signed_fields_def verifyPublicKeyBundle_typedData_def
        signPublicKeyBundle_typedData_def EIP712TypesV1_def
        coalesce_def get_property_def integer_value_simps)

lemma signed_fields_same:
  assumes "unixTimestamp body = Finite (of_int n)"
  shows "signed_fields (getEthereumFrameMessage_typedData (with_signature body sig b)) =
         signed_fields \<lparr> primaryType = ''FrameActionBody'', TypedDataDefinition.domain = domain,
                 types = EIP712TypesV1,
                 message = canonical_message body (JBigInt n) \<rparr>"
proof -
  have "signed_fields (getEthereumFrameMessage_typedData (with_signature body sig b)) =
        signed_fields (TypedDataDefinition.truncate
          (getEthereumFrameMessage_typedData (with_signature body sig b)))"
    by (simp add: signed_fields_truncate)
  also have "\<dots> = (''FrameActionBody'', domain, EIP712TypesV1,
      map (\<lambda>(k, v). (k, integer_value v))
        (canonical_message body (JNumber (Finite (of_int n)))))"
    using assms
    by (simp add: getEthereumFrameMessage_typedData_canonical signed_fields_canonical
          canonical_message_with_signature with_signature_simps)
  also have "\<dots> = (''FrameActionBody'', domain, EIP712TypesV1,
      map (\<lambda>(k, v). (k, integer_value v)) (canonical_message body (JBigInt n)))"
    by (simp add: canonical_message_def integer_value_simps)
  finally show ?thesis
    by (simp add: signed_fields_canonical)
qed

subsection \<open>The calls of the verifier\<close>

lemma verifyPublicKeyBundle_calls:
  "fst (verifyPublicKeyBundle env b) =
     [CreatePublicClient,
      VerifyTypedData (createPublicClient env) (verifyPublicKeyBundle_typedData b)]"
  by (simp add: verifyPublicKeyBundle_def Let_def)

lemma getEthereumFrameMessage_returns:
  assumes "verifyTypedData env (client_used env publicClient)
             (getEthereumFrameMessage_typedData (untrustedData body)) = Inr v1"
      and "verifyTypedData env (createPublicClient env)
             (verifyPublicKeyBundle_typedData (signedPublicKeyBundle (untrustedData body))) = Inr v2"
  shows "\<exists>r. snd (getEthereumFrameMessage env body publicClient) = Inr r \<and>
             get_property r ''isValid'' = JBoolean (v1 \<and> v2) \<and>
             get_property r ''requesterWalletAddress'' =
               JString (wallet_address (signedPublicKeyBundle (untrustedData body)))"
  using assms
  by (cases publicClient)
     (auto simp: getEthereumFrameMessage_def verifyPublicKeyBundle_def client_used_def coalesce_def
        Let_def get_property_update split: prod.splits sum.splits)

subsection \<open>The stand-in library\<close>

lemma toy_signature_cong:
  fixes p :: "'a TypedDataDefinition_scheme" and d :: "'b TypedDataDefinition_scheme"
  shows "signed_fields p = signed_fields d \<Longrightarrow> toy_signature a p = toy_signature a d"
  by (simp add: toy_signature_def)

lemma toy_verifies_what_it_signed: "verifies_what_it_signed toy"
proof -
  have "verifyTypedData toy (createPublicClient toy) p = Inr True"
    if "account w = Some a" and "signTypedData toy w d = Inr s"
      and "signed_fields p = signed_fields d"
      and "VerifyTypedDataParameters.address p = Account.address a"
      and "VerifyTypedDataParameters.signature p = s"
    for w a d s p
  proof -
    from that(1,2) have "s = toy_signature (Account.address a) d"
      by (simp add: toy_def)
    moreover from that(3)
    have "toy_signature (Account.address a) p = toy_signature (Account.address a) d"
      by (rule toy_signature_cong)
    ultimately show ?thesis
      using that(4,5) by (simp add: toy_def)
  qed
  then show ?thesis
    unfolding verifies_what_it_signed_def by blast
qed

lemma toy_clients:
  "createPublicClient toy = ''default''"
  "createPublicClient toy_offline = ''offline''"
  "verifyTypedData toy_offline = verifyTypedData toy"
  "client_used env None = createPublicClient env"
  "client_used env (Some c) = c"
  by (simp_all add: toy_def toy_offline_def client_used_def coalesce_def)

lemma request_bundle: "signedPublicKeyBundle (untrustedData request) = attestation"
  by (simp add: request_def with_signature_def)

lemma toy_action_check:
  "verifyTypedData toy ''default''
     (getEthereumFrameMessage_typedData (untrustedData request)) = Inr True"
  "verifyTypedData toy ''supplied''
     (getEthereumFrameMessage_typedData (untrustedData request)) = Inr True"
  "verifyTypedData toy ''offline''
     (getEthereumFrameMessage_typedData (untrustedData request)) = Inl ''network error''"
  by (simp_all add: toy_def toy_signature_def signed_fields_FrameActionBody)
     (simp_all add: getEthereumFrameMessage_typedData_def request_def with_signature_def click_def
        attestation_def coalesce_def integer_value_simps)

lemma toy_bundle_check:
  "verifyTypedData toy ''default'' (verifyPublicKeyBundle_typedData attestation) = Inr True"
  "verifyTypedData toy ''offline'' (verifyPublicKeyBundle_typedData attestation) =
     Inl ''network error''"
  by (simp_all add: toy_def toy_signature_def signed_fields_PublicKeyBundle)
     (simp add: verifyPublicKeyBundle_typedData_def attestation_def integer_value_simps)

lemma toy_createSignedPublicKeyBundle:
  "snd (createSignedPublicKeyBundle toy wallet) = Inr (attestation, ''0x01'')"
  by (simp add: createSignedPublicKeyBundle_def signPublicKeyBundle_def Let_def wallet_def toy_def
        attestation_def toy_signature_def signed_fields_PublicKeyBundle integer_value_simps)

section \<open>The claims\<close>

subsection \<open>C1: the round trip\<close>

text \<open>
  C1. Let the wallet client be bound to an account \<open>a\<close>, and let the body be a frame
  action body: its \<open>unixTimestamp\<close>, a unix timestamp in milliseconds that is signed as
  a \<open>uint64\<close>, is an integer. The external library is assumed to do its part: it returns
  a signature for the two typed data it is asked to sign (the bundle by the wallet, the
  body by the proxy key's signer), and it verifies the signatures it produced, which
  for typed data means that a signature it returned is accepted for typed data with the
  same signed fields and the signer's address. Then \<open>createSignedPublicKeyBundle\<close>
  returns a bundle and a private key, \<open>createEthereumFrameRequest\<close> with the body, that
  key's signer and the bundle returns a request, and \<open>getEthereumFrameMessage\<close> on the
  request returns an object with \<open>isValid = true\<close> and \<open>requesterWalletAddress\<close> the
  address of \<open>a\<close>.
\<close>

theorem round_trip_valid:
  fixes env :: "('c, 'e) viem"
  assumes acct: "account walletClient = Some a"
    and ts: "unixTimestamp body = Finite (of_int n)"
    and lib: "verifies_what_it_signed env"
    and sign_bundle:
      "\<exists>s. signTypedData env walletClient
             (signPublicKeyBundle_typedData
                \<lparr> timestamp = Finite (of_int (Date_now env)),
                  proxy_key_bytes =
                    Account.address (privateKeyToAccount env (generatePrivateKey env)) \<rparr>) = Inr s"
    and sign_body:
      "\<forall>d. signFrameActionBody_typedData body = (Inr d :: 'e error + TypedDataDefinition) \<longrightarrow>
           (\<exists>s. signTypedData env
                  \<lparr> account = Some (privateKeyToAccount env (generatePrivateKey env)) \<rparr> d = Inr s)"
  shows "\<exists>bundle privateKey req r.
           snd (createSignedPublicKeyBundle env walletClient) = Inr (bundle, privateKey) \<and>
           snd (createEthereumFrameRequest env body
                  \<lparr> account = Some (privateKeyToAccount env privateKey) \<rparr> bundle) = Inr req \<and>
           snd (getEthereumFrameMessage env req None) = Inr r \<and>
           get_property r ''isValid'' = JBoolean True \<and>
           get_property r ''requesterWalletAddress'' = JString (Account.address a)"
proof -
  let ?key = "generatePrivateKey env"
  let ?proxyAccount = "privateKeyToAccount env ?key"
  let ?proxy = "\<lparr> account = Some ?proxyAccount \<rparr>"
  let ?pkb = "\<lparr> timestamp = Finite (of_int (Date_now env)),
               proxy_key_bytes = Account.address ?proxyAccount \<rparr>"
  let ?d = "\<lparr> primaryType = ''FrameActionBody'', TypedDataDefinition.domain = domain,
             types = EIP712TypesV1, message = canonical_message body (JBigInt n) \<rparr>"
  from sign_bundle obtain s1 where s1:
    "signTypedData env walletClient (signPublicKeyBundle_typedData ?pkb) = Inr s1" ..
  let ?signed = "\<lparr> public_key_bundle = ?pkb, wallet_address = Account.address a,
                  SignedPublicKeyBundle.signature = s1 \<rparr>"
  have created: "snd (createSignedPublicKeyBundle env walletClient) = Inr (?signed, ?key)"
    using acct s1 by (simp add: createSignedPublicKeyBundle_def signPublicKeyBundle_def Let_def)
  have d: "signFrameActionBody_typedData body = (Inr ?d :: 'e error + TypedDataDefinition)"
    using ts by (rule signFrameActionBody_typedData_integer)
  with sign_body obtain s2 where s2: "signTypedData env ?proxy ?d = Inr s2"
    by blast
  let ?req = "\<lparr> clientProtocol = ''eth@v1'',
                untrustedData = with_signature body s2 ?signed,
                trustedData = \<lparr> messageBytes = ''0x'' \<rparr> \<rparr>"
  have request: "snd (createEthereumFrameRequest env body ?proxy ?signed) = Inr ?req"
    using d s2 by (simp add: createEthereumFrameRequest_def signFrameActionBody_def)
  have action: "verifyTypedData env (createPublicClient env)
      (getEthereumFrameMessage_typedData (with_signature body s2 ?signed)) = Inr True"
  proof -
    have "account ?proxy = Some ?proxyAccount" by simp
    moreover note s2
    moreover have
      "signed_fields (getEthereumFrameMessage_typedData (with_signature body s2 ?signed)) =
        signed_fields ?d"
      using ts by (rule signed_fields_same)
    moreover have "VerifyTypedDataParameters.address
        (getEthereumFrameMessage_typedData (with_signature body s2 ?signed)) =
        Account.address ?proxyAccount"
      by (simp add: getEthereumFrameMessage_typedData_def with_signature_def)
    moreover have "VerifyTypedDataParameters.signature
        (getEthereumFrameMessage_typedData (with_signature body s2 ?signed)) = s2"
      by (simp add: getEthereumFrameMessage_typedData_def with_signature_def)
    ultimately show ?thesis
      using lib unfolding verifies_what_it_signed_def by blast
  qed
  have delegation: "verifyTypedData env (createPublicClient env)
      (verifyPublicKeyBundle_typedData ?signed) = Inr True"
  proof -
    have "signed_fields (verifyPublicKeyBundle_typedData ?signed) =
        signed_fields (signPublicKeyBundle_typedData ?pkb)"
      by (simp add: signed_fields_PublicKeyBundle)
    moreover have "VerifyTypedDataParameters.address (verifyPublicKeyBundle_typedData ?signed) =
        Account.address a"
      by (simp add: verifyPublicKeyBundle_typedData_def)
    moreover have
      "VerifyTypedDataParameters.signature (verifyPublicKeyBundle_typedData ?signed) = s1"
      by (simp add: verifyPublicKeyBundle_typedData_def)
    ultimately show ?thesis
      using lib acct s1 unfolding verifies_what_it_signed_def by blast
  qed
  have "\<exists>r. snd (getEthereumFrameMessage env ?req None) = Inr r \<and>
             get_property r ''isValid'' = JBoolean (True \<and> True) \<and>
             get_property r ''requesterWalletAddress'' =
               JString (wallet_address (signedPublicKeyBundle (untrustedData ?req)))"
    by (rule getEthereumFrameMessage_returns)
       (simp_all add: client_used_def coalesce_def action delegation with_signature_simps)
  then obtain r where "snd (getEthereumFrameMessage env ?req None) = Inr r"
    "get_property r ''isValid'' = JBoolean True"
    "get_property r ''requesterWalletAddress'' = JString (Account.address a)"
    by (auto simp: with_signature_simps)
  with created request show ?thesis
    by blast
qed

text \<open>The round trip on the stand-in library, for the wallet \<open>0xaa\<close> and a click.\<close>

theorem round_trip_valid_witness:
  "\<exists>bundle privateKey req r.
     snd (createSignedPublicKeyBundle toy wallet) = Inr (bundle, privateKey) \<and>
     snd (createEthereumFrameRequest toy click
            \<lparr> account = Some (privateKeyToAccount toy privateKey) \<rparr> bundle) = Inr req \<and>
     snd (getEthereumFrameMessage toy req None) = Inr r \<and>
     get_property r ''isValid'' = JBoolean True \<and>
     get_property r ''requesterWalletAddress'' = JString ''0xaa''"
proof -
  have acct: "account wallet = Some \<lparr> Account.address = ''0xaa'' \<rparr>"
    by (simp add: wallet_def)
  have ts: "unixTimestamp click = Finite (of_int 1000)"
    by (simp add: click_def)
  have sign_bundle:
    "\<exists>s. signTypedData toy wallet
           (signPublicKeyBundle_typedData
              \<lparr> timestamp = Finite (of_int (Date_now toy)),
                proxy_key_bytes =
                  Account.address (privateKeyToAccount toy (generatePrivateKey toy)) \<rparr>) = Inr s"
    by (simp add: toy_def wallet_def)
  have sign_body:
    "\<forall>d. signFrameActionBody_typedData click = (Inr d :: string error + TypedDataDefinition) \<longrightarrow>
         (\<exists>s. signTypedData toy
                \<lparr> account = Some (privateKeyToAccount toy (generatePrivateKey toy)) \<rparr> d = Inr s)"
    by (simp add: toy_def)
  from round_trip_valid [OF acct ts toy_verifies_what_it_signed sign_bundle sign_body]
  show ?thesis by simp
qed

text \<open>
  A remark on numbers that are no timestamps: when \<open>unixTimestamp\<close> is not an integer,
  say 1.5, \<open>BigInt\<close> throws a \<open>RangeError\<close> in \<open>signFrameActionBody\<close> before the signer
  is called, and \<open>createEthereumFrameRequest\<close> builds no request.
\<close>

lemma fractional_timestamp_throws:
  "snd (createSignedPublicKeyBundle toy wallet) = Inr (attestation, ''0x01'') \<and>
   \<lparr> account = Some (privateKeyToAccount toy ''0x01'') \<rparr> = proxy \<and>
   createEthereumFrameRequest toy (click \<lparr> unixTimestamp := Finite (3 / 2) \<rparr>) proxy attestation =
     ([], Inl RangeError)"
  by (simp add: toy_createSignedPublicKeyBundle)
     (simp add: createEthereumFrameRequest_def signFrameActionBody_def
        signFrameActionBody_typedData_def BigInt_fraction proxy_def toy_def)

subsection \<open>C2: validity is the conjunction of the two checks\<close>

text \<open>
  C2. When the check of the action signature (\<open>untrustedData.signature\<close> against the
  message of the body, the proxy key of the bundle as signer, on the client in use)
  returns \<open>isFrameDataValid\<close> and \<open>verifyPublicKeyBundle\<close> on
  \<open>untrustedData.signedPublicKeyBundle\<close> returns \<open>isSignerValid\<close>, then
  \<open>getEthereumFrameMessage\<close> returns an object whose \<open>isValid\<close> is the conjunction of
  the two: true exactly when both are true.
\<close>

theorem isValid_is_conjunction:
  assumes "verifyTypedData env (client_used env publicClient)
             (getEthereumFrameMessage_typedData (untrustedData body)) = Inr isFrameDataValid"
      and "snd (verifyPublicKeyBundle env (signedPublicKeyBundle (untrustedData body))) =
             Inr isSignerValid"
  shows "\<exists>r. snd (getEthereumFrameMessage env body publicClient) = Inr r \<and>
             get_property r ''isValid'' = JBoolean (isFrameDataValid \<and> isSignerValid) \<and>
             (get_property r ''isValid'' = JBoolean True \<longleftrightarrow> isFrameDataValid \<and> isSignerValid)"
  using assms
  by (cases publicClient)
     (auto simp: getEthereumFrameMessage_def client_used_def coalesce_def Let_def
        get_property_update split: prod.splits sum.splits)

text \<open>
  On the stand-in library: the signed request is valid, and the same request with
  another \<open>url\<close>, whose action signature no longer matches, is not, although its
  bundle still verifies.
\<close>

theorem isValid_is_conjunction_witness:
  "(\<exists>r. snd (getEthereumFrameMessage toy request None) = Inr r \<and>
        get_property r ''isValid'' = JBoolean True) \<and>
   (\<exists>r. snd (getEthereumFrameMessage toy
               (request \<lparr> untrustedData := (untrustedData request) \<lparr> url := ''https://y'' \<rparr> \<rparr>)
               None) = Inr r \<and>
        get_property r ''isValid'' = JBoolean False)"
proof -
  let ?tampered = "request \<lparr> untrustedData := (untrustedData request) \<lparr> url := ''https://y'' \<rparr> \<rparr>"
  have delegation: "snd (verifyPublicKeyBundle toy (signedPublicKeyBundle (untrustedData request))) =
      Inr True"
    by (simp add: verifyPublicKeyBundle_def request_bundle toy_clients toy_bundle_check)
  have action: "verifyTypedData toy (client_used toy None)
      (getEthereumFrameMessage_typedData (untrustedData request)) = Inr True"
    by (simp add: toy_clients toy_action_check)
  have delegation': "snd (verifyPublicKeyBundle toy (signedPublicKeyBundle (untrustedData ?tampered))) =
      Inr True"
    by (simp add: verifyPublicKeyBundle_def request_bundle toy_clients toy_bundle_check)
  have action': "verifyTypedData toy (client_used toy None)
      (getEthereumFrameMessage_typedData (untrustedData ?tampered)) = Inr False"
    by (simp add: toy_clients toy_def toy_signature_def signed_fields_FrameActionBody)
       (simp add: getEthereumFrameMessage_typedData_def request_def with_signature_def click_def
          attestation_def coalesce_def integer_value_simps)
  from isValid_is_conjunction [OF action delegation] isValid_is_conjunction [OF action' delegation']
  show ?thesis by auto
qed

subsection \<open>C3: the message signed and the message verified\<close>

text \<open>
  C3, as it holds of the code. For every body whose \<open>unixTimestamp\<close> is an integer
  \<open>n\<close>, the typed data that \<open>signFrameActionBody\<close> signs and the typed data that
  \<open>getEthereumFrameMessage\<close> rebuilds from the same field values have the same
  primary type, domain and schemas, and both messages are the canonical message of the
  body (schema order, the sentinels for absent fields), except for the representation
  of \<open>unix_timestamp\<close>: the \<open>bigint\<close> \<open>n\<close> where it is signed, the \<open>number\<close> \<open>n\<close> where it
  is verified.
\<close>

theorem canonical_message_on_both_paths:
  assumes "unixTimestamp body = Finite (of_int n)"
  shows "signFrameActionBody_typedData body =
           Inr \<lparr> primaryType = ''FrameActionBody'', TypedDataDefinition.domain = domain,
                 types = EIP712TypesV1,
                 message = canonical_message body (JBigInt n) \<rparr> \<and>
         TypedDataDefinition.truncate
             (getEthereumFrameMessage_typedData (with_signature body sig b)) =
           \<lparr> primaryType = ''FrameActionBody'', TypedDataDefinition.domain = domain,
             types = EIP712TypesV1,
             message = canonical_message body (JNumber (Finite (of_int n))) \<rparr>"
  using assms
  by (simp add: signFrameActionBody_typedData_integer getEthereumFrameMessage_typedData_canonical
        canonical_message_with_signature with_signature_simps)

theorem canonical_message_on_both_paths_witness:
  "signFrameActionBody_typedData click =
     (Inr \<lparr> primaryType = ''FrameActionBody'', TypedDataDefinition.domain = domain,
            types = EIP712TypesV1,
            message = canonical_message click (JBigInt 1000) \<rparr>
      :: string error + TypedDataDefinition) \<and>
   TypedDataDefinition.truncate (getEthereumFrameMessage_typedData (untrustedData request)) =
     \<lparr> primaryType = ''FrameActionBody'', TypedDataDefinition.domain = domain,
       types = EIP712TypesV1,
       message = canonical_message click (JNumber (Finite 1000)) \<rparr>"
proof -
  have "unixTimestamp click = Finite (of_int 1000)"
    by (simp add: click_def)
  from canonical_message_on_both_paths [OF this]
  show ?thesis by (simp add: request_def)
qed

text \<open>
  The claim as it is stated fails on the representation of \<open>unix_timestamp\<close>: for the
  click, with timestamp 1000, the message signed holds \<open>1000n\<close> and the message
  verified holds \<open>1000\<close>.
\<close>

theorem messages_differ_in_unix_timestamp:
  "map_sum id message (signFrameActionBody_typedData click :: string error + TypedDataDefinition)
     \<noteq> Inr (message (getEthereumFrameMessage_typedData (untrustedData request)))"
  by (simp add: signFrameActionBody_typedData_def click_def BigInt_def request_def
       getEthereumFrameMessage_typedData_def with_signature_def)

subsection \<open>C4: the message submitted for a bundle\<close>

text \<open>
  C4 fails on the code. The message that \<open>verifyPublicKeyBundle\<close> submits has three
  entries, \<open>timestamp\<close>, \<open>wallet_address\<close> and \<open>proxy_key_bytes\<close>; the message that
  \<open>signPublicKeyBundle\<close> signs, and the \<open>PublicKeyBundle\<close> schema, have two. The
  claimed signer is the \<open>wallet_address\<close> of the signed bundle, as the claim says.
\<close>

theorem verifyPublicKeyBundle_message:
  "message (verifyPublicKeyBundle_typedData b) =
     [(''timestamp'', JNumber (timestamp (public_key_bundle b))),
      (''wallet_address'', JString (wallet_address b)),
      (''proxy_key_bytes'', JString (proxy_key_bytes (public_key_bundle b)))] \<and>
   message (signPublicKeyBundle_typedData (public_key_bundle b)) =
     [(''timestamp'', JNumber (timestamp (public_key_bundle b))),
      (''proxy_key_bytes'', JString (proxy_key_bytes (public_key_bundle b)))] \<and>
   map_of EIP712TypesV1 ''PublicKeyBundle'' =
     Some [(''timestamp'', ''uint64''), (''proxy_key_bytes'', ''address'')] \<and>
   message (verifyPublicKeyBundle_typedData b) \<noteq>
     message (signPublicKeyBundle_typedData (public_key_bundle b)) \<and>
   fst (verifyPublicKeyBundle env b) =
     [CreatePublicClient,
      VerifyTypedData (createPublicClient env) (verifyPublicKeyBundle_typedData b)] \<and>
   VerifyTypedDataParameters.address (verifyPublicKeyBundle_typedData b) = wallet_address b"
  by (simp add: verifyPublicKeyBundle_calls)
     (simp add: verifyPublicKeyBundle_typedData_def signPublicKeyBundle_typedData_def
        EIP712TypesV1_def)

subsection \<open>C5: the object returned\<close>







subsection \<open>C6: which client verifies\<close>

text \<open>
  C6 fails on the code. When \<open>getEthereumFrameMessage\<close> is given a client, the action
  signature is checked on it; but whenever that check returns, \<open>verifyPublicKeyBundle\<close>
  builds a default client and checks the bundle on that one. On the stand-in library,
  with a working client given and the default client off line, the run builds the
  default client, calls it, and ends with its error.
\<close>

theorem bundle_checked_on_default_client:
  "fst (getEthereumFrameMessage env body (Some c)) =
     VerifyTypedData c (getEthereumFrameMessage_typedData (untrustedData body)) #
     (case verifyTypedData env c (getEthereumFrameMessage_typedData (untrustedData body)) of
        Inl e \<Rightarrow> []
      | Inr v \<Rightarrow>
          [CreatePublicClient,
           VerifyTypedData (createPublicClient env)
             (verifyPublicKeyBundle_typedData (signedPublicKeyBundle (untrustedData body)))]) \<and>
   getEthereumFrameMessage toy_offline request (Some ''supplied'') =
     ([VerifyTypedData ''supplied'' (getEthereumFrameMessage_typedData (untrustedData request)),
       CreatePublicClient,
       VerifyTypedData ''offline'' (verifyPublicKeyBundle_typedData attestation)],
      Inl (Thrown ''network error''))"
proof -
  have "fst (getEthereumFrameMessage env body (Some c)) =
     VerifyTypedData c (getEthereumFrameMessage_typedData (untrustedData body)) #
     (case verifyTypedData env c (getEthereumFrameMessage_typedData (untrustedData body)) of
        Inl e \<Rightarrow> []
      | Inr v \<Rightarrow>
          [CreatePublicClient,
           VerifyTypedData (createPublicClient env)
             (verifyPublicKeyBundle_typedData (signedPublicKeyBundle (untrustedData body)))])"
    by (simp add: getEthereumFrameMessage_def Let_def verifyPublicKeyBundle_def
          split: sum.splits)
  moreover have "getEthereumFrameMessage toy_offline request (Some ''supplied'') =
     ([VerifyTypedData ''supplied'' (getEthereumFrameMessage_typedData (untrustedData request)),
       CreatePublicClient,
       VerifyTypedData ''offline'' (verifyPublicKeyBundle_typedData attestation)],
      Inl (Thrown ''network error''))"
    by (simp add: getEthereumFrameMessage_def Let_def verifyPublicKeyBundle_def
          toy_clients toy_action_check toy_bundle_check request_bundle)
  ultimately show ?thesis ..
qed

subsection \<open>C7: the type guard\<close>

text \<open>
  C7. \<open>isEthereumFrameActionPayload\<close> is true of a value exactly when the value is a
  non-null object with the keys \<open>clientProtocol\<close>, \<open>untrustedData\<close> and \<open>trustedData\<close>,
  its \<open>clientProtocol\<close> is the string \<open>eth@v1\<close>, and its \<open>untrustedData\<close> and
  \<open>trustedData\<close> are non-null objects. It is false of \<open>null\<close>, of a string, of an
  object without \<open>trustedData\<close>, and of an object tagged \<open>eth@v2\<close>.
\<close>

theorem isEthereumFrameActionPayload_iff:
  "(isEthereumFrameActionPayload body \<longleftrightarrow>
      (\<exists>props. body = JObject props \<and>
         non_null_object body \<and>
         has_property ''clientProtocol'' props \<and>
         has_property ''untrustedData'' props \<and>
         has_property ''trustedData'' props \<and>
         get_property props ''clientProtocol'' = JString ''eth@v1'' \<and>
         non_null_object (get_property props ''untrustedData'') \<and>
         non_null_object (get_property props ''trustedData''))) \<and>
   isEthereumFrameActionPayload JNull = False \<and>
   isEthereumFrameActionPayload (JString ''eth@v1'') = False \<and>
   isEthereumFrameActionPayload
     (JObject [(''clientProtocol'', JString ''eth@v1''), (''untrustedData'', JObject [])]) = False \<and>
   isEthereumFrameActionPayload
     (JObject [(''clientProtocol'', JString ''eth@v2''), (''untrustedData'', JObject []),
               (''trustedData'', JObject [])]) = False"
proof -
  have "isEthereumFrameActionPayload body \<longleftrightarrow>
      (\<exists>props. body = JObject props \<and>
         non_null_object body \<and>
         has_property ''clientProtocol'' props \<and>
         has_property ''untrustedData'' props \<and>
         has_property ''trustedData'' props \<and>
         get_property props ''clientProtocol'' = JString ''eth@v1'' \<and>
         non_null_object (get_property props ''untrustedData'') \<and>
         non_null_object (get_property props ''trustedData''))"
    by (cases body)
       (auto simp: isEthereumFrameActionPayload_def non_null_object_def Let_def)
  moreover have "isEthereumFrameActionPayload JNull = False"
    "isEthereumFrameActionPayload (JString ''eth@v1'') = False"
    by (simp_all add: isEthereumFrameActionPayload_def)
  moreover have "isEthereumFrameActionPayload
     (JObject [(''clientProtocol'', JString ''eth@v1''), (''untrustedData'', JObject [])]) = False"
    by (simp add: isEthereumFrameActionPayload_def has_property_simps)
  moreover have "isEthereumFrameActionPayload
     (JObject [(''clientProtocol'', JString ''eth@v2''), (''untrustedData'', JObject []),
               (''trustedData'', JObject [])]) = False"
    by (simp add: isEthereumFrameActionPayload_def has_property_simps get_property_def)
  ultimately show ?thesis by blast
qed

text \<open>A payload of the right shape passes the guard.\<close>

theorem isEthereumFrameActionPayload_iff_witness:
  "isEthereumFrameActionPayload
     (JObject [(''clientProtocol'', JString ''eth@v1''),
               (''untrustedData'', JObject [(''url'', JString ''https://x'')]),
               (''trustedData'', JObject [(''messageBytes'', JString ''0x'')])])"
proof -
  let ?props = "[(''clientProtocol'', JString ''eth@v1''),
                 (''untrustedData'', JObject [(''url'', JString ''https://x'')]),
                 (''trustedData'', JObject [(''messageBytes'', JString ''0x'')])]"
  have "non_null_object (JObject ?props) \<and>
        has_property ''clientProtocol'' ?props \<and>
        has_property ''untrustedData'' ?props \<and>
        has_property ''trustedData'' ?props \<and>
        get_property ?props ''clientProtocol'' = JString ''eth@v1'' \<and>
        non_null_object (get_property ?props ''untrustedData'') \<and>
        non_null_object (get_property ?props ''trustedData'')"
    by (simp add: non_null_object_def has_property_simps get_property_def)
  with isEthereumFrameActionPayload_iff [of "JObject ?props"] show ?thesis
    by blast
qed

subsection \<open>C8: errors of the library\<close>

text \<open>
  C8. An error \<open>e\<close> of a \<open>verifyTypedData\<close> call is the error the operation ends with:
  of the one call in \<open>verifyPublicKeyBundle\<close>; of the check of the action signature in
  \<open>getEthereumFrameMessage\<close>; and, when that check has returned, of the check of the
  bundle. In none of these cases is an object with \<open>isValid\<close> returned.
\<close>

theorem library_error_propagates:
  "(verifyTypedData env (createPublicClient env) (verifyPublicKeyBundle_typedData b) = Inl e
      \<longrightarrow> snd (verifyPublicKeyBundle env b) = Inl (Thrown e)) \<and>
   (verifyTypedData env (client_used env publicClient)
        (getEthereumFrameMessage_typedData (untrustedData body)) = Inl e
      \<longrightarrow> snd (getEthereumFrameMessage env body publicClient) = Inl (Thrown e)) \<and>
   (verifyTypedData env (client_used env publicClient)
        (getEthereumFrameMessage_typedData (untrustedData body)) = Inr v \<and>
    verifyTypedData env (createPublicClient env)
        (verifyPublicKeyBundle_typedData (signedPublicKeyBundle (untrustedData body))) = Inl e
      \<longrightarrow> snd (getEthereumFrameMessage env body publicClient) = Inl (Thrown e))"
  by (cases publicClient)
     (auto simp: getEthereumFrameMessage_def verifyPublicKeyBundle_def client_used_def
        coalesce_def Let_def split: prod.splits sum.splits)

text \<open>
  On the stand-in library: the default client off line fails the check of a bundle;
  a client off line fails the check of the action; and with a working client given and
  the default client off line, the check of the bundle fails the run.
\<close>

theorem library_error_propagates_witness:
  "snd (verifyPublicKeyBundle toy_offline attestation) = Inl (Thrown ''network error'') \<and>
   snd (getEthereumFrameMessage toy request (Some ''offline'')) = Inl (Thrown ''network error'') \<and>
   snd (getEthereumFrameMessage toy_offline request (Some ''supplied'')) =
     Inl (Thrown ''network error'')"
proof -
  have 1: "verifyTypedData toy_offline (createPublicClient toy_offline)
      (verifyPublicKeyBundle_typedData attestation) = Inl ''network error''"
    by (simp add: toy_clients toy_bundle_check)
  have 2: "verifyTypedData toy (client_used toy (Some ''offline''))
      (getEthereumFrameMessage_typedData (untrustedData request)) = Inl ''network error''"
    by (simp add: toy_clients toy_action_check)
  have 3: "verifyTypedData toy_offline (client_used toy_offline (Some ''supplied''))
        (getEthereumFrameMessage_typedData (untrustedData request)) = Inr True \<and>
      verifyTypedData toy_offline (createPublicClient toy_offline)
        (verifyPublicKeyBundle_typedData (signedPublicKeyBundle (untrustedData request))) =
        Inl ''network error''"
    by (simp add: toy_clients toy_action_check toy_bundle_check request_bundle)
  from library_error_propagates [of toy_offline attestation "''network error''" None request True]
    library_error_propagates [of toy attestation "''network error''" "Some ''offline''" request True]
    library_error_propagates
      [of toy_offline attestation "''network error''" "Some ''supplied''" request True]
    1 2 3
  show ?thesis by blast
qed

subsection \<open>C9: a client without an account\<close>

text \<open>
  C9. With a wallet client that has no account, \<open>createSignedPublicKeyBundle\<close>,
  \<open>signPublicKeyBundle\<close> and \<open>signFrameActionBody\<close> each throw the error
  \<open>Wallet client does not have an account\<close> and make no call of the library (the trace
  is empty); with a client that has an account, none of them ends with that error.
\<close>

theorem no_account_error:
  "(account walletClient = None \<longrightarrow>
      createSignedPublicKeyBundle env walletClient = ([], Inl NoAccountError) \<and>
      signPublicKeyBundle env publicKeyBundle walletClient = ([], Inl NoAccountError) \<and>
      signFrameActionBody env body walletClient = ([], Inl NoAccountError)) \<and>
   (account walletClient \<noteq> None \<longrightarrow>
      snd (createSignedPublicKeyBundle env walletClient) \<noteq> Inl NoAccountError \<and>
      snd (signPublicKeyBundle env publicKeyBundle walletClient) \<noteq> Inl NoAccountError \<and>
      snd (signFrameActionBody env body walletClient) \<noteq> Inl NoAccountError)"
  by (auto simp: createSignedPublicKeyBundle_def signPublicKeyBundle_def signFrameActionBody_def
        signFrameActionBody_typedData_def BigInt_def NoAccountError_def Let_def
        split: option.splits sum.splits prod.splits number.splits if_splits)

theorem no_account_error_witness:
  "createSignedPublicKeyBundle toy \<lparr> account = None \<rparr> = ([], Inl NoAccountError) \<and>
   signPublicKeyBundle toy (public_key_bundle attestation) \<lparr> account = None \<rparr> =
     ([], Inl NoAccountError) \<and>
   signFrameActionBody toy click \<lparr> account = None \<rparr> = ([], Inl NoAccountError) \<and>
   snd (createSignedPublicKeyBundle toy wallet) \<noteq> Inl NoAccountError \<and>
   snd (signPublicKeyBundle toy (public_key_bundle attestation) wallet) \<noteq> Inl NoAccountError \<and>
   snd (signFrameActionBody toy click wallet) \<noteq> Inl NoAccountError"
proof -
  have "account \<lparr> account = None \<rparr> = None" "account wallet \<noteq> None"
    by (simp_all add: wallet_def)
  with no_account_error [of "\<lparr> account = None \<rparr>" toy "public_key_bundle attestation" click]
    no_account_error [of wallet toy "public_key_bundle attestation" click]
  show ?thesis by blast
qed

subsection \<open>C10: the timestamp of a bundle\<close>

text \<open>
  C10, as it holds of the code. The bundle that \<open>createSignedPublicKeyBundle\<close> builds,
  hands to the wallet to sign and returns has as \<open>timestamp\<close> the value of
  \<open>Date.now()\<close>, the current unix time in milliseconds.
\<close>

theorem bundle_timestamp_is_Date_now:
  assumes "account walletClient = Some a"
  shows "\<exists>d. fst (createSignedPublicKeyBundle env walletClient) = [SignTypedData walletClient d] \<and>
             get_property (message d) ''timestamp'' = JNumber (Finite (of_int (Date_now env))) \<and>
             (\<forall>b k. snd (createSignedPublicKeyBundle env walletClient) = Inr (b, k) \<longrightarrow>
                timestamp (public_key_bundle b) = Finite (of_int (Date_now env)))"
  using assms
  by (auto simp: createSignedPublicKeyBundle_def signPublicKeyBundle_def Let_def
        signPublicKeyBundle_typedData_def get_property_def split: sum.splits)

theorem bundle_timestamp_is_Date_now_witness:
  "\<exists>d. fst (createSignedPublicKeyBundle toy wallet) = [SignTypedData wallet d] \<and>
       get_property (message d) ''timestamp'' = JNumber (Finite 1700000000000) \<and>
       timestamp (public_key_bundle attestation) = Finite 1700000000000"
proof -
  have "account wallet = Some \<lparr> Account.address = ''0xaa'' \<rparr>"
    by (simp add: wallet_def)
  from bundle_timestamp_is_Date_now [OF this, of toy] toy_createSignedPublicKeyBundle
  show ?thesis by (auto simp: toy_def)
qed

text \<open>
  The claim as it is stated fails: at the moment \<open>Date.now()\<close> returns 1700000000000,
  the unix time in seconds is 1700000000, and the timestamp of the bundle is
  1700000000000.
\<close>

theorem bundle_timestamp_not_seconds:
  "snd (createSignedPublicKeyBundle toy wallet) = Inr (attestation, ''0x01'') \<and>
   unix_seconds (Date_now toy) = 1700000000 \<and>
   timestamp (public_key_bundle attestation) = Finite 1700000000000 \<and>
   timestamp (public_key_bundle attestation) \<noteq> Finite (of_int (unix_seconds (Date_now toy)))"
  by (simp add: toy_createSignedPublicKeyBundle)
     (simp add: attestation_def unix_seconds_def toy_def)

end
